theory Spec2Isabelle
  imports Main
begin

section \<open>Data model of the endpoint controller\<close>

text \<open>
  The controller of \<^verbatim>\<open>pkg/controller/endpoint/controller.go\<close> reacts to a change of a
  Kubernetes Endpoints object, reads the NetworkFilesystem resource and the Service of the
  same name, recomputes the status of the NetworkFilesystem and writes it back when it
  differs from the one it fetched.

  Go's string-typed enumerations (\<^verbatim>\<open>type NetworkFSState string\<close> and the like) are
  strings here as well, so that a field may hold any value, the zero value \<open>''''\<close>
  included.
\<close>

text \<open>
  \<^verbatim>\<open>metav1.Time\<close> wraps Go's \<^verbatim>\<open>time.Time\<close>. The controller only ever compares such
  values through \<^verbatim>\<open>reflect.DeepEqual\<close> (line 130), which looks at the representation and
  not at the instant it denotes: the packed \<^verbatim>\<open>wall\<close> word (seconds, nanoseconds and the
  flag of a monotonic reading), the \<^verbatim>\<open>ext\<close> word and the location. A time is therefore
  this representation, and two times are equal exactly when Go finds them deep-equal; the
  location, a pointer in Go, is stood for by its name (\<open>None\<close> for the nil pointer).
\<close>

record Time =
  t_wall :: nat
  t_ext :: int
  t_loc :: "string option"

datatype error = Error string
  \<comment> \<open>Go's \<^verbatim>\<open>error\<close> interface: an opaque failure of an external call.\<close>

record EndpointAddress =
  IP :: string

record EndpointSubset =
  Addresses :: "EndpointAddress list"

record Endpoints =
  ep_Name :: string
  ep_DeletionTimestamp :: "Time option"
  ep_Subsets :: "EndpointSubset list"

record ServiceSpec =
  ClusterIP :: string

record Service =
  svc_Name :: string
  svc_Spec :: ServiceSpec

record NetworkFSCondition =
  cond_Type :: string
  cond_Status :: string
  cond_LastTransitionTime :: Time
  cond_Reason :: string
  cond_Message :: string

record NetworkFSSpec =
  DesiredState :: string

record NetworkFSStatus =
  st_Endpoint :: string
  st_Status :: string
  st_Type :: string
  st_State :: string
  st_NetworkFSConds :: "NetworkFSCondition list"

record NetworkFilesystem =
  nfs_Name :: string
  nfs_Namespace :: string
  nfs_Spec :: NetworkFSSpec
  nfs_Status :: NetworkFSStatus

subsection \<open>Constants declared outside the controller\<close>

text \<open>
  \<^verbatim>\<open>corev1.ClusterIPNone\<close> and \<^verbatim>\<open>corev1.ConditionTrue\<close> are the Kubernetes API's
  constants.
\<close>

definition ClusterIPNone :: string where
  "ClusterIPNone = ''None''"

definition ConditionTrue :: string where
  "ConditionTrue = ''True''"

text \<open>
  Modelled from the spec: the constant declarations of
  \<^verbatim>\<open>pkg/apis/harvesterhci.io/v1beta1\<close> and of \<^verbatim>\<open>pkg/utils\<close> are missing from the
  sources at hand. The values are the names the specification gives to the desired state
  (Enabled), the lifecycle state (Enabling), the readiness (Ready, NotReady), the protocol
  type (NFS) and the three condition types (Ready, NotReady, EndpointChanged). The
  specification only says of \<^verbatim>\<open>utils.LHNameSpace\<close> that it is a fixed well-known
  namespace; no result below depends on its value.
\<close>

definition NetworkFSStateEnabled :: string where
  "NetworkFSStateEnabled = ''Enabled''"

definition NetworkFSStateEnabling :: string where
  "NetworkFSStateEnabling = ''Enabling''"

definition EndpointStatusReady :: string where
  "EndpointStatusReady = ''Ready''"

definition EndpointStatusNotReady :: string where
  "EndpointStatusNotReady = ''NotReady''"

definition NetworkFSTypeNFS :: string where
  "NetworkFSTypeNFS = ''NFS''"

definition ConditionTypeReady :: string where
  "ConditionTypeReady = ''Ready''"

definition ConditionTypeNotReady :: string where
  "ConditionTypeNotReady = ''NotReady''"

definition ConditionTypeEndpointChanged :: string where
  "ConditionTypeEndpointChanged = ''EndpointChanged''"

definition LHNameSpace :: string where
  "LHNameSpace = ''longhorn-system''"

subsection \<open>The condition history helper\<close>

text \<open>
  Modelled from the spec: \<^verbatim>\<open>utils.UpdateNetworkFSConds\<close> (package \<^verbatim>\<open>pkg/utils\<close>) is
  missing from the sources at hand. The specification describes the history as an ordered
  list of condition records with append/update semantics keyed by the condition type:
  updating a type replaces the record of that type (its timestamp and message) rather than
  duplicating the entry, and a type not yet in the history is appended.
\<close>

fun UpdateNetworkFSConds ::
  "NetworkFSCondition list \<Rightarrow> NetworkFSCondition \<Rightarrow> NetworkFSCondition list" where
  "UpdateNetworkFSConds [] c = [c]"
| "UpdateNetworkFSConds (x # xs) c =
     (if cond_Type x = cond_Type c then c # xs else x # UpdateNetworkFSConds xs c)"

subsection \<open>The controller and its external collaborators\<close>

text \<open>
  The clients are interfaces injected by \<^verbatim>\<open>Register\<close>; the controller only calls
  \<^verbatim>\<open>NetworkFilsystems.Get\<close>, \<^verbatim>\<open>NetworkFilsystems.UpdateStatus\<close> and
  \<^verbatim>\<open>serviceClient.Get\<close>. Each is a function that answers with an error (\<open>Inl\<close>) or a
  resource (\<open>Inr\<close>). The caches and the endpoint client, which \<^verbatim>\<open>OnEndpointChange\<close>
  never touches, are left out.
\<close>

record Controller =
  namespace :: string
  nodeName :: string
  NetworkFilsystems_Get :: "string \<Rightarrow> string \<Rightarrow> error + NetworkFilesystem"
  NetworkFilsystems_UpdateStatus :: "NetworkFilesystem \<Rightarrow> error + NetworkFilesystem"
  serviceClient_Get :: "string \<Rightarrow> string \<Rightarrow> error + Service"

text \<open>The external calls an invocation makes, in the order it makes them.\<close>

datatype Call =
    GetNetworkFS string string
  | GetService string string
  | UpdateStatus NetworkFilesystem

text \<open>
  What \<^verbatim>\<open>OnEndpointChange\<close> hands back: the returned object, the returned error, and the
  trace of the external calls it made.
\<close>

record Outcome =
  out :: "Endpoints option"
  err :: "error option"
  calls :: "Call list"

definition HasPrefix :: "string \<Rightarrow> string \<Rightarrow> bool" where
  \<comment> \<open>\<^verbatim>\<open>strings.HasPrefix\<close>\<close>
  "HasPrefix s pre = (length pre \<le> length s \<and> take (length pre) s = pre)"

section \<open>The reconciliation\<close>

text \<open>
  Lines 87 to 128 of the controller: the status computed on a deep copy of the fetched
  resource. \<^verbatim>\<open>metav1.Now()\<close> reads the wall clock; \<open>clk k\<close> is what its \<open>k\<close>-th call
  during the invocation returns (counting from 0). The live branch reads the clock once for
  the EndpointChanged condition, when it builds one, and once for the Ready condition.
  The two indexings \<^verbatim>\<open>Subsets[0]\<close> and \<^verbatim>\<open>Addresses[0]\<close> are guarded by the length
  tests of line 88, which the two case distinctions follow.
\<close>

definition notReadyStatus :: "(nat \<Rightarrow> Time) \<Rightarrow> NetworkFilesystem \<Rightarrow> NetworkFilesystem" where
  \<comment> \<open>Lines 89 to 100.\<close>
  "notReadyStatus clk networkFSCpy =
     (let conds = \<lparr>cond_Type = ConditionTypeNotReady,
                   cond_Status = ConditionTrue,
                   cond_LastTransitionTime = clk 0,
                   cond_Reason = ''Endpoint is not ready'',
                   cond_Message = ''Endpoint did not contain the corresponding address''\<rparr>
      in networkFSCpy\<lparr>nfs_Status := (nfs_Status networkFSCpy)
           \<lparr>st_Endpoint := '''',
            st_Status := EndpointStatusNotReady,
            st_Type := NetworkFSTypeNFS,
            st_State := NetworkFSStateEnabling,
            st_NetworkFSConds :=
              UpdateNetworkFSConds (st_NetworkFSConds (nfs_Status networkFSCpy)) conds\<rparr>\<rparr>)"

definition changedCondition :: "Time \<Rightarrow> string \<Rightarrow> string \<Rightarrow> NetworkFSCondition" where
  \<comment> \<open>Lines 103 to 113: the message is first the "initialized" text and is then replaced
      whenever it is not the empty string.\<close>
  "changedCondition now previous ip =
     (let changedMsg = ''Endpoint address is initialized with '' @ ip;
          changedMsg = (if changedMsg \<noteq> ''''
                        then ''Endpoint address is changed, previous address is '' @ previous
                        else changedMsg)
      in \<lparr>cond_Type = ConditionTypeEndpointChanged,
          cond_Status = ConditionTrue,
          cond_LastTransitionTime = now,
          cond_Reason = ''Endpoint is changed'',
          cond_Message = changedMsg\<rparr>)"

definition readyStatus ::
  "(nat \<Rightarrow> Time) \<Rightarrow> string \<Rightarrow> NetworkFilesystem \<Rightarrow> NetworkFilesystem" where
  \<comment> \<open>Lines 102 to 127, with \<open>ip\<close> for \<^verbatim>\<open>endpoint.Subsets[0].Addresses[0].IP\<close>.\<close>
  "readyStatus clk ip networkFSCpy =
     (let changed = (st_Endpoint (nfs_Status networkFSCpy) \<noteq> ip);
          networkFSCpy =
            (if changed
             then networkFSCpy\<lparr>nfs_Status := (nfs_Status networkFSCpy)
                    \<lparr>st_NetworkFSConds :=
                       UpdateNetworkFSConds (st_NetworkFSConds (nfs_Status networkFSCpy))
                         (changedCondition (clk 0) (st_Endpoint (nfs_Status networkFSCpy)) ip)\<rparr>\<rparr>
             else networkFSCpy);
          conds = \<lparr>cond_Type = ConditionTypeReady,
                   cond_Status = ConditionTrue,
                   cond_LastTransitionTime = clk (if changed then 1 else 0),
                   cond_Reason = ''Endpoint is ready'',
                   cond_Message = ''Endpoint contains the corresponding address''\<rparr>
      in networkFSCpy\<lparr>nfs_Status := (nfs_Status networkFSCpy)
           \<lparr>st_Endpoint := ip,
            st_Status := EndpointStatusReady,
            st_Type := NetworkFSTypeNFS,
            st_State := NetworkFSStateEnabling,
            st_NetworkFSConds :=
              UpdateNetworkFSConds (st_NetworkFSConds (nfs_Status networkFSCpy)) conds\<rparr>\<rparr>)"

definition computeStatus ::
  "(nat \<Rightarrow> Time) \<Rightarrow> Endpoints \<Rightarrow> NetworkFilesystem \<Rightarrow> NetworkFilesystem" where
  "computeStatus clk endpoint networkFS =
     (case ep_Subsets endpoint of
        [] \<Rightarrow> notReadyStatus clk networkFS
      | first # _ \<Rightarrow>
          (case Addresses first of
             [] \<Rightarrow> notReadyStatus clk networkFS
           | address # _ \<Rightarrow> readyStatus clk (IP address) networkFS))"

text \<open>
  \<^verbatim>\<open>OnEndpointChange\<close>. The key argument is ignored, as in the source. A nil endpoint is
  \<open>None\<close>. \<^verbatim>\<open>DeepCopy\<close> is the identity on values and \<^verbatim>\<open>reflect.DeepEqual\<close> is
  equality: the computed history is never empty, so Go's distinction between a nil and an
  empty slice cannot make two equal values differ here.
\<close>

definition OnEndpointChange ::
  "Controller \<Rightarrow> (nat \<Rightarrow> Time) \<Rightarrow> string \<Rightarrow> Endpoints option \<Rightarrow> Outcome" where
  "OnEndpointChange c clk key endpoint =
     (case endpoint of
        None \<Rightarrow> \<lparr>out = None, err = None, calls = []\<rparr>
      | Some ep \<Rightarrow>
          if ep_DeletionTimestamp ep \<noteq> None then \<lparr>out = None, err = None, calls = []\<rparr>
          else if \<not> HasPrefix (ep_Name ep) ''pvc-'' then \<lparr>out = None, err = None, calls = []\<rparr>
          else
            (case NetworkFilsystems_Get c (namespace c) (ep_Name ep) of
               Inl e \<Rightarrow>
                 \<lparr>out = None, err = Some e, calls = [GetNetworkFS (namespace c) (ep_Name ep)]\<rparr>
             | Inr networkFS \<Rightarrow>
                 if DesiredState (nfs_Spec networkFS) \<noteq> NetworkFSStateEnabled
                 then \<lparr>out = None, err = None,
                       calls = [GetNetworkFS (namespace c) (ep_Name ep)]\<rparr>
                 else
                   (case serviceClient_Get c LHNameSpace (ep_Name ep) of
                      Inl e \<Rightarrow>
                        \<lparr>out = None, err = Some e,
                         calls = [GetNetworkFS (namespace c) (ep_Name ep),
                                  GetService LHNameSpace (ep_Name ep)]\<rparr>
                    | Inr service \<Rightarrow>
                        if ClusterIP (svc_Spec service) \<noteq> ClusterIPNone
                        then \<lparr>out = None, err = None,
                              calls = [GetNetworkFS (namespace c) (ep_Name ep),
                                       GetService LHNameSpace (ep_Name ep)]\<rparr>
                        else
                          (let networkFSCpy = computeStatus clk ep networkFS
                           in if networkFS \<noteq> networkFSCpy
                              then
                                (case NetworkFilsystems_UpdateStatus c networkFSCpy of
                                   Inl e \<Rightarrow>
                                     \<lparr>out = None, err = Some e,
                                      calls = [GetNetworkFS (namespace c) (ep_Name ep),
                                               GetService LHNameSpace (ep_Name ep),
                                               UpdateStatus networkFSCpy]\<rparr>
                                 | Inr _ \<Rightarrow>
                                     \<lparr>out = None, err = None,
                                      calls = [GetNetworkFS (namespace c) (ep_Name ep),
                                               GetService LHNameSpace (ep_Name ep),
                                               UpdateStatus networkFSCpy]\<rparr>)
                              else \<lparr>out = None, err = None,
                                    calls = [GetNetworkFS (namespace c) (ep_Name ep),
                                             GetService LHNameSpace (ep_Name ep)]\<rparr>))))"

section \<open>Notions used to state the properties\<close>

text \<open>
  The invariant the data model puts on a condition history: at most one record for each
  condition type.
\<close>

definition condsInvariant :: "NetworkFSCondition list \<Rightarrow> bool" where
  "condsInvariant cs = distinct (map cond_Type cs)"

subsection \<open>Concrete resources for the examples\<close>

text \<open>
  A controller in namespace \<open>harvester-system\<close> whose clients answer every read with a
  fixed result, and whose status update either always succeeds or always fails with a
  conflict; an endpoint given by the addresses of its subsets; a NetworkFilesystem
  \<open>pvc-abc\<close> given by its desired state, its stored address and its history; a Service
  given by its cluster IP; and a clock whose \<open>k\<close>-th reading has the wall word \<open>t + k\<close>.
\<close>

definition stubController ::
  "(error + NetworkFilesystem) \<Rightarrow> (error + Service) \<Rightarrow> bool \<Rightarrow> Controller" where
  "stubController fsAnswer svcAnswer updateFails =
     \<lparr>namespace = ''harvester-system'',
      nodeName = ''node-1'',
      NetworkFilsystems_Get = (\<lambda>ns name. fsAnswer),
      NetworkFilsystems_UpdateStatus =
        (\<lambda>obj. if updateFails then Inl (Error ''conflict'') else Inr obj),
      serviceClient_Get = (\<lambda>ns name. svcAnswer)\<rparr>"

definition endpointWith :: "string \<Rightarrow> string list list \<Rightarrow> Endpoints" where
  "endpointWith name subsets =
     \<lparr>ep_Name = name, ep_DeletionTimestamp = None,
      ep_Subsets = map (\<lambda>ips. \<lparr>Addresses = map (\<lambda>ip. \<lparr>IP = ip\<rparr>) ips\<rparr>) subsets\<rparr>"

definition filesystemWith ::
  "string \<Rightarrow> string \<Rightarrow> NetworkFSCondition list \<Rightarrow> NetworkFilesystem" where
  "filesystemWith desired address history =
     \<lparr>nfs_Name = ''pvc-abc'', nfs_Namespace = ''harvester-system'',
      nfs_Spec = \<lparr>DesiredState = desired\<rparr>,
      nfs_Status = \<lparr>st_Endpoint = address, st_Status = '''', st_Type = '''', st_State = '''',
                    st_NetworkFSConds = history\<rparr>\<rparr>"

definition serviceWith :: "string \<Rightarrow> Service" where
  "serviceWith ip = \<lparr>svc_Name = ''pvc-abc'', svc_Spec = \<lparr>ClusterIP = ip\<rparr>\<rparr>"

definition clockFrom :: "nat \<Rightarrow> nat \<Rightarrow> Time" where
  "clockFrom t k = \<lparr>t_wall = t + k, t_ext = 0, t_loc = None\<rparr>"

text \<open>
  The resource as an earlier reconciliation left it: the address \<open>10.0.0.2\<close> was seen at
  clock reading 3 on a fresh resource, so the history holds an EndpointChanged record of
  reading 3 and a Ready record of reading 4.
\<close>

definition earlierStatus :: NetworkFilesystem where
  "earlierStatus =
     computeStatus (clockFrom 3) (endpointWith ''pvc-abc'' [[''10.0.0.2'']])
       (filesystemWith NetworkFSStateEnabled '''' [])"

lemmas consts_defs = ClusterIPNone_def ConditionTrue_def NetworkFSStateEnabled_def
  NetworkFSStateEnabling_def EndpointStatusReady_def EndpointStatusNotReady_def
  NetworkFSTypeNFS_def ConditionTypeReady_def ConditionTypeNotReady_def
  ConditionTypeEndpointChanged_def LHNameSpace_def

lemmas fixture_defs = stubController_def endpointWith_def filesystemWith_def serviceWith_def
  clockFrom_def

lemmas model_defs = computeStatus_def readyStatus_def notReadyStatus_def changedCondition_def
  Let_def

section \<open>Properties of the condition history helper\<close>

lemma Update_filter_same:
  "distinct (map cond_Type cs) \<Longrightarrow>
   filter (\<lambda>x. cond_Type x = cond_Type c) (UpdateNetworkFSConds cs c) = [c]"
proof (induction cs)
  case Nil
  show ?case by simp
next
  case (Cons x xs)
  show ?case
  proof (cases "cond_Type x = cond_Type c")
    case True
    with Cons.prems have "cond_Type c \<notin> cond_Type ` set xs" by simp
    then have "\<forall>y\<in>set xs. cond_Type y \<noteq> cond_Type c"
      by (metis imageI)
    then have "filter (\<lambda>y. cond_Type y = cond_Type c) xs = []"
      by (simp add: filter_empty_conv)
    with True show ?thesis by simp
  next
    case False
    with Cons show ?thesis by simp
  qed
qed

lemma Update_filter_other:
  "cond_Type c \<noteq> ty \<Longrightarrow>
   filter (\<lambda>x. cond_Type x = ty) (UpdateNetworkFSConds cs c) = filter (\<lambda>x. cond_Type x = ty) cs"
  by (induction cs) auto

lemma Update_types:
  "cond_Type ` set (UpdateNetworkFSConds cs c) = insert (cond_Type c) (cond_Type ` set cs)"
  by (induction cs) auto

text \<open>The helper maintains the invariant of the data model.\<close>

lemma Update_distinct:
  "distinct (map cond_Type cs) \<Longrightarrow> distinct (map cond_Type (UpdateNetworkFSConds cs c))"
  by (induction cs) (auto simp: Update_types)

lemma Update_member: "c \<in> set (UpdateNetworkFSConds cs c)"
  by (induction cs) auto

lemma Update_keeps_other:
  "x \<in> set cs \<Longrightarrow> cond_Type x \<noteq> cond_Type c \<Longrightarrow> x \<in> set (UpdateNetworkFSConds cs c)"
  by (induction cs) auto

section \<open>Properties of the status computation\<close>

lemma computeStatus_live:
  "ep_Subsets ep \<noteq> [] \<Longrightarrow> Addresses (hd (ep_Subsets ep)) \<noteq> [] \<Longrightarrow>
   computeStatus clk ep networkFS =
     readyStatus clk (IP (hd (Addresses (hd (ep_Subsets ep))))) networkFS"
  by (auto simp: computeStatus_def split: list.splits)

lemma computeStatus_not_live:
  "ep_Subsets ep = [] \<or> Addresses (hd (ep_Subsets ep)) = [] \<Longrightarrow>
   computeStatus clk ep networkFS = notReadyStatus clk networkFS"
  by (auto simp: computeStatus_def split: list.splits)

section \<open>The guards\<close>

text \<open>
  Claim C8. For every endpoint that is present and not being deleted and whose name does
  not start with \<open>pvc-\<close>, \<^verbatim>\<open>OnEndpointChange\<close> makes no external call at all (it reads
  neither the NetworkFilesystem nor the Service and writes nothing) and returns no object
  and no error.
\<close>

theorem prefix_filter:
  assumes "ep_DeletionTimestamp ep = None" and "\<not> HasPrefix (ep_Name ep) ''pvc-''"
  shows "OnEndpointChange c clk key (Some ep) = \<lparr>out = None, err = None, calls = []\<rparr>"
  using assms by (simp add: OnEndpointChange_def)

theorem prefix_filter_witness:
  "OnEndpointChange (stubController (Inl (Error ''not found'')) (Inl (Error ''not found'')) False)
     (clockFrom 7) ''default/kubernetes'' (Some (endpointWith ''kubernetes'' [[''10.0.0.1'']]))
   = \<lparr>out = None, err = None, calls = []\<rparr>"
  by (rule prefix_filter) (simp_all add: fixture_defs HasPrefix_def)

text \<open>
  Claim C6. Whenever an invocation fetched a NetworkFilesystem whose desired state is not
  Enabled, it submits no status update and returns no error, whatever the endpoint holds.
\<close>

theorem not_enabled_gate:
  assumes "GetNetworkFS ns name \<in> set (calls (OnEndpointChange c clk key endpoint))"
    and "NetworkFilsystems_Get c ns name = Inr networkFS"
    and "DesiredState (nfs_Spec networkFS) \<noteq> NetworkFSStateEnabled"
  shows "err (OnEndpointChange c clk key endpoint) = None \<and>
         (\<forall>obj. UpdateStatus obj \<notin> set (calls (OnEndpointChange c clk key endpoint)))"
  using assms
  by (auto simp: OnEndpointChange_def Let_def split: option.splits if_splits sum.splits)

theorem not_enabled_gate_witness:
  "err (OnEndpointChange
          (stubController (Inr (filesystemWith ''Disabled'' ''10.0.0.2'' []))
             (Inr (serviceWith ClusterIPNone)) False)
          (clockFrom 7) ''default/pvc-abc'' (Some (endpointWith ''pvc-abc'' [[''10.0.0.9'']]))) = None \<and>
   (\<forall>obj. UpdateStatus obj \<notin> set (calls (OnEndpointChange
          (stubController (Inr (filesystemWith ''Disabled'' ''10.0.0.2'' []))
             (Inr (serviceWith ClusterIPNone)) False)
          (clockFrom 7) ''default/pvc-abc'' (Some (endpointWith ''pvc-abc'' [[''10.0.0.9'']])))))"
  by (rule not_enabled_gate [where ns = "''harvester-system''" and name = "''pvc-abc''"
        and networkFS = "filesystemWith ''Disabled'' ''10.0.0.2'' []"])
     (simp_all add: OnEndpointChange_def fixture_defs consts_defs HasPrefix_def)

text \<open>
  Claim C7. Whenever an invocation fetched a Service whose cluster IP is not the headless
  sentinel \<open>None\<close>, it submits no status update and returns no error.
\<close>

theorem service_gate:
  assumes "GetService ns name \<in> set (calls (OnEndpointChange c clk key endpoint))"
    and "serviceClient_Get c ns name = Inr service"
    and "ClusterIP (svc_Spec service) \<noteq> ClusterIPNone"
  shows "err (OnEndpointChange c clk key endpoint) = None \<and>
         (\<forall>obj. UpdateStatus obj \<notin> set (calls (OnEndpointChange c clk key endpoint)))"
  using assms
  by (auto simp: OnEndpointChange_def Let_def split: option.splits if_splits sum.splits)

theorem service_gate_witness:
  "err (OnEndpointChange
          (stubController (Inr (filesystemWith NetworkFSStateEnabled ''10.0.0.2'' []))
             (Inr (serviceWith ''10.43.0.17'')) False)
          (clockFrom 7) ''default/pvc-abc'' (Some (endpointWith ''pvc-abc'' [[''10.0.0.9'']]))) = None \<and>
   (\<forall>obj. UpdateStatus obj \<notin> set (calls (OnEndpointChange
          (stubController (Inr (filesystemWith NetworkFSStateEnabled ''10.0.0.2'' []))
             (Inr (serviceWith ''10.43.0.17'')) False)
          (clockFrom 7) ''default/pvc-abc'' (Some (endpointWith ''pvc-abc'' [[''10.0.0.9'']])))))"
  by (rule service_gate [where ns = LHNameSpace and name = "''pvc-abc''"
        and service = "serviceWith ''10.43.0.17''"])
     (simp_all add: OnEndpointChange_def fixture_defs consts_defs HasPrefix_def)

section \<open>Persistence and errors\<close>

text \<open>
  Claim C3. When every guard passes, the invocation reads the NetworkFilesystem and the
  Service and then submits a status update, of exactly the computed resource, if and only
  if that resource differs from the fetched one; when the two are equal nothing is
  written. The returned object is always nil, and the returned error is nil when the
  write is skipped or succeeds (it is the update's error otherwise).
\<close>

theorem write_iff_changed:
  assumes "ep_DeletionTimestamp ep = None"
    and "HasPrefix (ep_Name ep) ''pvc-''"
    and "NetworkFilsystems_Get c (namespace c) (ep_Name ep) = Inr networkFS"
    and "DesiredState (nfs_Spec networkFS) = NetworkFSStateEnabled"
    and "serviceClient_Get c LHNameSpace (ep_Name ep) = Inr service"
    and "ClusterIP (svc_Spec service) = ClusterIPNone"
  shows "calls (OnEndpointChange c clk key (Some ep)) =
           [GetNetworkFS (namespace c) (ep_Name ep), GetService LHNameSpace (ep_Name ep)] @
           (if computeStatus clk ep networkFS \<noteq> networkFS
            then [UpdateStatus (computeStatus clk ep networkFS)] else []) \<and>
         out (OnEndpointChange c clk key (Some ep)) = None \<and>
         err (OnEndpointChange c clk key (Some ep)) =
           (if computeStatus clk ep networkFS \<noteq> networkFS
            then (case NetworkFilsystems_UpdateStatus c (computeStatus clk ep networkFS) of
                    Inl e \<Rightarrow> Some e | Inr _ \<Rightarrow> None)
            else None)"
  using assms
  by (auto simp: OnEndpointChange_def Let_def split: sum.splits)

theorem write_iff_changed_witness:
  "calls (OnEndpointChange
            (stubController (Inr (filesystemWith NetworkFSStateEnabled ''10.0.0.2'' []))
               (Inr (serviceWith ClusterIPNone)) False)
            (clockFrom 7) ''default/pvc-abc'' (Some (endpointWith ''pvc-abc'' [[''10.0.0.9'']]))) =
     [GetNetworkFS ''harvester-system'' ''pvc-abc'', GetService LHNameSpace ''pvc-abc'',
      UpdateStatus (computeStatus (clockFrom 7) (endpointWith ''pvc-abc'' [[''10.0.0.9'']])
                      (filesystemWith NetworkFSStateEnabled ''10.0.0.2'' []))] \<and>
   out (OnEndpointChange
            (stubController (Inr (filesystemWith NetworkFSStateEnabled ''10.0.0.2'' []))
               (Inr (serviceWith ClusterIPNone)) False)
            (clockFrom 7) ''default/pvc-abc'' (Some (endpointWith ''pvc-abc'' [[''10.0.0.9'']]))) = None \<and>
   err (OnEndpointChange
            (stubController (Inr (filesystemWith NetworkFSStateEnabled ''10.0.0.2'' []))
               (Inr (serviceWith ClusterIPNone)) False)
            (clockFrom 7) ''default/pvc-abc'' (Some (endpointWith ''pvc-abc'' [[''10.0.0.9'']]))) = None"
proof -
  have differs: "computeStatus (clockFrom 7) (endpointWith ''pvc-abc'' [[''10.0.0.9'']])
                   (filesystemWith NetworkFSStateEnabled ''10.0.0.2'' []) \<noteq>
                 filesystemWith NetworkFSStateEnabled ''10.0.0.2'' []"
    by (simp add: model_defs fixture_defs)
  show ?thesis
    using differs
      write_iff_changed [of "endpointWith ''pvc-abc'' [[''10.0.0.9'']]"
        "stubController (Inr (filesystemWith NetworkFSStateEnabled ''10.0.0.2'' []))
               (Inr (serviceWith ClusterIPNone)) False"
        "filesystemWith NetworkFSStateEnabled ''10.0.0.2'' []"
        "serviceWith ClusterIPNone" "clockFrom 7" "''default/pvc-abc''"]
    by (simp add: fixture_defs HasPrefix_def)
qed

text \<open>
  Claim C9. The returned error is decided by the answers of the three external calls.
  For an endpoint that is present, not being deleted and carries the prefix: a failing
  NetworkFilesystem get returns its error; otherwise, for an enabled resource, a failing
  Service get returns its error; otherwise, for a headless service, a status update that
  is submitted (the computed resource differs from the fetched one) and fails returns its
  error, while a skipped or successful update returns nil. No failure is swallowed. Every
  no-op guard returns a nil error: an absent endpoint, an endpoint being deleted, a name
  without the prefix, a fetched NetworkFilesystem that is not enabled, and a fetched
  Service that is not headless. These cases cover every invocation, so the error is
  non-nil exactly when one of the three calls failed.
\<close>

theorem errors_are_call_failures:
  "(\<forall>ep. endpoint = Some ep \<and> ep_DeletionTimestamp ep = None \<and>
         HasPrefix (ep_Name ep) ''pvc-'' \<longrightarrow>
      (\<forall>e. NetworkFilsystems_Get c (namespace c) (ep_Name ep) = Inl e \<longrightarrow>
         err (OnEndpointChange c clk key endpoint) = Some e) \<and>
      (\<forall>networkFS. NetworkFilsystems_Get c (namespace c) (ep_Name ep) = Inr networkFS \<and>
           DesiredState (nfs_Spec networkFS) = NetworkFSStateEnabled \<longrightarrow>
         (\<forall>e. serviceClient_Get c LHNameSpace (ep_Name ep) = Inl e \<longrightarrow>
            err (OnEndpointChange c clk key endpoint) = Some e) \<and>
         (\<forall>service. serviceClient_Get c LHNameSpace (ep_Name ep) = Inr service \<and>
              ClusterIP (svc_Spec service) = ClusterIPNone \<longrightarrow>
            (\<forall>e. computeStatus clk ep networkFS \<noteq> networkFS \<and>
                 NetworkFilsystems_UpdateStatus c (computeStatus clk ep networkFS) = Inl e \<longrightarrow>
               err (OnEndpointChange c clk key endpoint) = Some e) \<and>
            (computeStatus clk ep networkFS = networkFS \<or>
             (\<exists>obj. NetworkFilsystems_UpdateStatus c (computeStatus clk ep networkFS) = Inr obj) \<longrightarrow>
               err (OnEndpointChange c clk key endpoint) = None)))) \<and>
   (endpoint = None \<longrightarrow> err (OnEndpointChange c clk key endpoint) = None) \<and>
   (\<forall>ep. endpoint = Some ep \<and> ep_DeletionTimestamp ep \<noteq> None \<longrightarrow>
      err (OnEndpointChange c clk key endpoint) = None) \<and>
   (\<forall>ep. endpoint = Some ep \<and> \<not> HasPrefix (ep_Name ep) ''pvc-'' \<longrightarrow>
      err (OnEndpointChange c clk key endpoint) = None) \<and>
   (\<forall>ep networkFS. endpoint = Some ep \<and>
      NetworkFilsystems_Get c (namespace c) (ep_Name ep) = Inr networkFS \<and>
      DesiredState (nfs_Spec networkFS) \<noteq> NetworkFSStateEnabled \<longrightarrow>
      err (OnEndpointChange c clk key endpoint) = None) \<and>
   (\<forall>ep networkFS service. endpoint = Some ep \<and>
      NetworkFilsystems_Get c (namespace c) (ep_Name ep) = Inr networkFS \<and>
      serviceClient_Get c LHNameSpace (ep_Name ep) = Inr service \<and>
      ClusterIP (svc_Spec service) \<noteq> ClusterIPNone \<longrightarrow>
      err (OnEndpointChange c clk key endpoint) = None)"
proof -
  have lookups: "\<forall>ep. endpoint = Some ep \<and> ep_DeletionTimestamp ep = None \<and>
         HasPrefix (ep_Name ep) ''pvc-'' \<longrightarrow>
      (\<forall>e. NetworkFilsystems_Get c (namespace c) (ep_Name ep) = Inl e \<longrightarrow>
         err (OnEndpointChange c clk key endpoint) = Some e) \<and>
      (\<forall>networkFS. NetworkFilsystems_Get c (namespace c) (ep_Name ep) = Inr networkFS \<and>
           DesiredState (nfs_Spec networkFS) = NetworkFSStateEnabled \<longrightarrow>
         (\<forall>e. serviceClient_Get c LHNameSpace (ep_Name ep) = Inl e \<longrightarrow>
            err (OnEndpointChange c clk key endpoint) = Some e) \<and>
         (\<forall>service. serviceClient_Get c LHNameSpace (ep_Name ep) = Inr service \<and>
              ClusterIP (svc_Spec service) = ClusterIPNone \<longrightarrow>
            (\<forall>e. computeStatus clk ep networkFS \<noteq> networkFS \<and>
                 NetworkFilsystems_UpdateStatus c (computeStatus clk ep networkFS) = Inl e \<longrightarrow>
               err (OnEndpointChange c clk key endpoint) = Some e) \<and>
            (computeStatus clk ep networkFS = networkFS \<or>
             (\<exists>obj. NetworkFilsystems_UpdateStatus c (computeStatus clk ep networkFS) = Inr obj) \<longrightarrow>
               err (OnEndpointChange c clk key endpoint) = None)))"
    by (auto simp: OnEndpointChange_def Let_def)
  have guards: "(endpoint = None \<longrightarrow> err (OnEndpointChange c clk key endpoint) = None) \<and>
   (\<forall>ep. endpoint = Some ep \<and> ep_DeletionTimestamp ep \<noteq> None \<longrightarrow>
      err (OnEndpointChange c clk key endpoint) = None) \<and>
   (\<forall>ep. endpoint = Some ep \<and> \<not> HasPrefix (ep_Name ep) ''pvc-'' \<longrightarrow>
      err (OnEndpointChange c clk key endpoint) = None) \<and>
   (\<forall>ep networkFS. endpoint = Some ep \<and>
      NetworkFilsystems_Get c (namespace c) (ep_Name ep) = Inr networkFS \<and>
      DesiredState (nfs_Spec networkFS) \<noteq> NetworkFSStateEnabled \<longrightarrow>
      err (OnEndpointChange c clk key endpoint) = None) \<and>
   (\<forall>ep networkFS service. endpoint = Some ep \<and>
      NetworkFilsystems_Get c (namespace c) (ep_Name ep) = Inr networkFS \<and>
      serviceClient_Get c LHNameSpace (ep_Name ep) = Inr service \<and>
      ClusterIP (svc_Spec service) \<noteq> ClusterIPNone \<longrightarrow>
      err (OnEndpointChange c clk key endpoint) = None)"
    by (auto simp: OnEndpointChange_def Let_def split: option.splits if_splits sum.splits)
  from lookups guards show ?thesis by (rule conjI)
qed

theorem errors_are_call_failures_witness:
  "err (OnEndpointChange
          (stubController (Inl (Error ''not found'')) (Inr (serviceWith ClusterIPNone)) False)
          (clockFrom 7) ''default/pvc-abc'' (Some (endpointWith ''pvc-abc'' [[''10.0.0.9'']])))
     = Some (Error ''not found'') \<and>
   err (OnEndpointChange
          (stubController (Inr (filesystemWith NetworkFSStateEnabled ''10.0.0.2'' []))
             (Inl (Error ''timeout'')) False)
          (clockFrom 7) ''default/pvc-abc'' (Some (endpointWith ''pvc-abc'' [[''10.0.0.9'']])))
     = Some (Error ''timeout'') \<and>
   err (OnEndpointChange
          (stubController (Inr (filesystemWith NetworkFSStateEnabled ''10.0.0.2'' []))
             (Inr (serviceWith ClusterIPNone)) True)
          (clockFrom 7) ''default/pvc-abc'' (Some (endpointWith ''pvc-abc'' [[''10.0.0.9'']])))
     = Some (Error ''conflict'')"
proof -
  have differs: "computeStatus (clockFrom 7) (endpointWith ''pvc-abc'' [[''10.0.0.9'']])
                   (filesystemWith NetworkFSStateEnabled ''10.0.0.2'' []) \<noteq>
                 filesystemWith NetworkFSStateEnabled ''10.0.0.2'' []"
    by (simp add: model_defs fixture_defs)
  have get_fails: "err (OnEndpointChange
          (stubController (Inl (Error ''not found'')) (Inr (serviceWith ClusterIPNone)) False)
          (clockFrom 7) ''default/pvc-abc'' (Some (endpointWith ''pvc-abc'' [[''10.0.0.9'']])))
     = Some (Error ''not found'')"
    using errors_are_call_failures [of "Some (endpointWith ''pvc-abc'' [[''10.0.0.9'']])"
        "stubController (Inl (Error ''not found'')) (Inr (serviceWith ClusterIPNone)) False"
        "clockFrom 7" "''default/pvc-abc''"]
    by (simp add: fixture_defs HasPrefix_def)
  have service_fails: "err (OnEndpointChange
          (stubController (Inr (filesystemWith NetworkFSStateEnabled ''10.0.0.2'' []))
             (Inl (Error ''timeout'')) False)
          (clockFrom 7) ''default/pvc-abc'' (Some (endpointWith ''pvc-abc'' [[''10.0.0.9'']])))
     = Some (Error ''timeout'')"
    using errors_are_call_failures [of "Some (endpointWith ''pvc-abc'' [[''10.0.0.9'']])"
        "stubController (Inr (filesystemWith NetworkFSStateEnabled ''10.0.0.2'' []))
             (Inl (Error ''timeout'')) False"
        "clockFrom 7" "''default/pvc-abc''"]
    by (simp add: fixture_defs HasPrefix_def)
  have update_fails: "err (OnEndpointChange
          (stubController (Inr (filesystemWith NetworkFSStateEnabled ''10.0.0.2'' []))
             (Inr (serviceWith ClusterIPNone)) True)
          (clockFrom 7) ''default/pvc-abc'' (Some (endpointWith ''pvc-abc'' [[''10.0.0.9'']])))
     = Some (Error ''conflict'')"
    using differs
      errors_are_call_failures [of "Some (endpointWith ''pvc-abc'' [[''10.0.0.9'']])"
        "stubController (Inr (filesystemWith NetworkFSStateEnabled ''10.0.0.2'' []))
             (Inr (serviceWith ClusterIPNone)) True"
        "clockFrom 7" "''default/pvc-abc''"]
    by (simp add: fixture_defs HasPrefix_def)
  from get_fails service_fails update_fails show ?thesis by simp
qed

section \<open>The computed status\<close>

text \<open>
  Claim C4. When the endpoint has a first subset with a first address, the computed status
  is Ready, its address is that first address of the first subset (no other subset or
  address is looked at), its type is NFS and its state is Enabling. For a fetched history
  that satisfies the data model's invariant, the computed history holds exactly one record
  of type Ready: the one just built, with status true and reason "Endpoint is ready".
\<close>

theorem ready_derivation:
  assumes "ep_Subsets ep \<noteq> []" and "Addresses (hd (ep_Subsets ep)) \<noteq> []"
    and "condsInvariant (st_NetworkFSConds (nfs_Status networkFS))"
  shows "st_Status (nfs_Status (computeStatus clk ep networkFS)) = EndpointStatusReady \<and>
         st_Endpoint (nfs_Status (computeStatus clk ep networkFS)) =
           IP (hd (Addresses (hd (ep_Subsets ep)))) \<and>
         st_Type (nfs_Status (computeStatus clk ep networkFS)) = NetworkFSTypeNFS \<and>
         st_State (nfs_Status (computeStatus clk ep networkFS)) = NetworkFSStateEnabling \<and>
         filter (\<lambda>x. cond_Type x = ConditionTypeReady)
           (st_NetworkFSConds (nfs_Status (computeStatus clk ep networkFS))) =
           [\<lparr>cond_Type = ConditionTypeReady,
             cond_Status = ConditionTrue,
             cond_LastTransitionTime =
               clk (if st_Endpoint (nfs_Status networkFS) \<noteq> IP (hd (Addresses (hd (ep_Subsets ep))))
                    then 1 else 0),
             cond_Reason = ''Endpoint is ready'',
             cond_Message = ''Endpoint contains the corresponding address''\<rparr>]"
proof -
  let ?ip = "IP (hd (Addresses (hd (ep_Subsets ep))))"
  let ?cs = "st_NetworkFSConds (nfs_Status networkFS)"
  let ?ch = "changedCondition (clk 0) (st_Endpoint (nfs_Status networkFS)) ?ip"
  have inv: "distinct (map cond_Type ?cs)"
    using assms(3) by (simp add: condsInvariant_def)
  have inv': "distinct (map cond_Type (UpdateNetworkFSConds ?cs ?ch))"
    using inv by (rule Update_distinct)
  have eq: "computeStatus clk ep networkFS = readyStatus clk ?ip networkFS"
    using assms(1,2) by (rule computeStatus_live)
  show ?thesis
    unfolding eq
    using Update_filter_same [OF inv, where c = "\<lparr>cond_Type = ConditionTypeReady,
             cond_Status = ConditionTrue, cond_LastTransitionTime = clk 0,
             cond_Reason = ''Endpoint is ready'',
             cond_Message = ''Endpoint contains the corresponding address''\<rparr>"]
          Update_filter_same [OF inv', where c = "\<lparr>cond_Type = ConditionTypeReady,
             cond_Status = ConditionTrue, cond_LastTransitionTime = clk 1,
             cond_Reason = ''Endpoint is ready'',
             cond_Message = ''Endpoint contains the corresponding address''\<rparr>"]
    by (simp add: readyStatus_def Let_def)
qed

theorem ready_derivation_witness:
  "st_Status (nfs_Status (computeStatus (clockFrom 7)
       (endpointWith ''pvc-abc'' [[''10.0.0.5'', ''10.0.0.6''], [''10.0.0.7'']])
       earlierStatus)) = EndpointStatusReady \<and>
   st_Endpoint (nfs_Status (computeStatus (clockFrom 7)
       (endpointWith ''pvc-abc'' [[''10.0.0.5'', ''10.0.0.6''], [''10.0.0.7'']])
       earlierStatus)) = ''10.0.0.5'' \<and>
   st_Type (nfs_Status (computeStatus (clockFrom 7)
       (endpointWith ''pvc-abc'' [[''10.0.0.5'', ''10.0.0.6''], [''10.0.0.7'']])
       earlierStatus)) = NetworkFSTypeNFS \<and>
   st_State (nfs_Status (computeStatus (clockFrom 7)
       (endpointWith ''pvc-abc'' [[''10.0.0.5'', ''10.0.0.6''], [''10.0.0.7'']])
       earlierStatus)) = NetworkFSStateEnabling \<and>
   filter (\<lambda>x. cond_Type x = ConditionTypeReady)
     (st_NetworkFSConds (nfs_Status (computeStatus (clockFrom 7)
       (endpointWith ''pvc-abc'' [[''10.0.0.5'', ''10.0.0.6''], [''10.0.0.7'']])
       earlierStatus))) =
     [\<lparr>cond_Type = ConditionTypeReady, cond_Status = ConditionTrue,
       cond_LastTransitionTime = clockFrom 7 1, cond_Reason = ''Endpoint is ready'',
       cond_Message = ''Endpoint contains the corresponding address''\<rparr>]"
proof -
  have inv: "condsInvariant (st_NetworkFSConds (nfs_Status earlierStatus))"
    by (simp add: condsInvariant_def earlierStatus_def model_defs fixture_defs consts_defs)
  have previous: "st_Endpoint (nfs_Status earlierStatus) = ''10.0.0.2''"
    by (simp add: earlierStatus_def model_defs fixture_defs)
  show ?thesis
    using previous
      ready_derivation [OF _ _ inv,
        of "endpointWith ''pvc-abc'' [[''10.0.0.5'', ''10.0.0.6''], [''10.0.0.7'']]" "clockFrom 7"]
    by (simp add: fixture_defs)
qed

text \<open>
  Claim C5. When the endpoint has no subset, or its first subset has no address, the
  computed status is NotReady, its address is cleared to the empty string, its type is NFS
  and its state is Enabling. For a fetched history that satisfies the data model's
  invariant, the computed history holds exactly one record of type NotReady: the one just
  built, with status true and reason "Endpoint is not ready".
\<close>

theorem not_ready_derivation:
  assumes "ep_Subsets ep = [] \<or> Addresses (hd (ep_Subsets ep)) = []"
    and "condsInvariant (st_NetworkFSConds (nfs_Status networkFS))"
  shows "st_Status (nfs_Status (computeStatus clk ep networkFS)) = EndpointStatusNotReady \<and>
         st_Endpoint (nfs_Status (computeStatus clk ep networkFS)) = '''' \<and>
         st_Type (nfs_Status (computeStatus clk ep networkFS)) = NetworkFSTypeNFS \<and>
         st_State (nfs_Status (computeStatus clk ep networkFS)) = NetworkFSStateEnabling \<and>
         filter (\<lambda>x. cond_Type x = ConditionTypeNotReady)
           (st_NetworkFSConds (nfs_Status (computeStatus clk ep networkFS))) =
           [\<lparr>cond_Type = ConditionTypeNotReady,
             cond_Status = ConditionTrue,
             cond_LastTransitionTime = clk 0,
             cond_Reason = ''Endpoint is not ready'',
             cond_Message = ''Endpoint did not contain the corresponding address''\<rparr>]"
proof -
  have inv: "distinct (map cond_Type (st_NetworkFSConds (nfs_Status networkFS)))"
    using assms(2) by (simp add: condsInvariant_def)
  have eq: "computeStatus clk ep networkFS = notReadyStatus clk networkFS"
    using assms(1) by (rule computeStatus_not_live)
  show ?thesis
    unfolding eq
    using Update_filter_same [OF inv, where c = "\<lparr>cond_Type = ConditionTypeNotReady,
             cond_Status = ConditionTrue, cond_LastTransitionTime = clk 0,
             cond_Reason = ''Endpoint is not ready'',
             cond_Message = ''Endpoint did not contain the corresponding address''\<rparr>"]
    by (simp add: notReadyStatus_def Let_def)
qed

theorem not_ready_derivation_witness:
  "st_Status (nfs_Status (computeStatus (clockFrom 7) (endpointWith ''pvc-abc'' [])
       earlierStatus)) = EndpointStatusNotReady \<and>
   st_Endpoint (nfs_Status (computeStatus (clockFrom 7) (endpointWith ''pvc-abc'' [])
       earlierStatus)) = '''' \<and>
   st_Type (nfs_Status (computeStatus (clockFrom 7) (endpointWith ''pvc-abc'' [])
       earlierStatus)) = NetworkFSTypeNFS \<and>
   st_State (nfs_Status (computeStatus (clockFrom 7) (endpointWith ''pvc-abc'' [])
       earlierStatus)) = NetworkFSStateEnabling \<and>
   filter (\<lambda>x. cond_Type x = ConditionTypeNotReady)
     (st_NetworkFSConds (nfs_Status (computeStatus (clockFrom 7) (endpointWith ''pvc-abc'' [])
       earlierStatus))) =
     [\<lparr>cond_Type = ConditionTypeNotReady, cond_Status = ConditionTrue,
       cond_LastTransitionTime = clockFrom 7 0, cond_Reason = ''Endpoint is not ready'',
       cond_Message = ''Endpoint did not contain the corresponding address''\<rparr>]"
proof -
  have inv: "condsInvariant (st_NetworkFSConds (nfs_Status earlierStatus))"
    by (simp add: condsInvariant_def earlierStatus_def model_defs fixture_defs consts_defs)
  show ?thesis
    using not_ready_derivation [OF _ inv, of "endpointWith ''pvc-abc'' []" "clockFrom 7"]
    by (simp add: fixture_defs)
qed

text \<open>
  Claim C10. When the endpoint has no live address, the records of type EndpointChanged in
  the computed history are exactly those of the fetched history, also when a stored
  address is being cleared: the branch neither appends nor updates such a record. The live
  branch is the one that records it: when the first address differs from the stored one,
  the EndpointChanged record built from the clock's first reading is in the computed
  history.
\<close>

theorem changed_condition_only_when_live:
  "(ep_Subsets ep = [] \<or> Addresses (hd (ep_Subsets ep)) = [] \<longrightarrow>
      filter (\<lambda>x. cond_Type x = ConditionTypeEndpointChanged)
        (st_NetworkFSConds (nfs_Status (computeStatus clk ep networkFS))) =
      filter (\<lambda>x. cond_Type x = ConditionTypeEndpointChanged)
        (st_NetworkFSConds (nfs_Status networkFS))) \<and>
   (ep_Subsets ep \<noteq> [] \<and> Addresses (hd (ep_Subsets ep)) \<noteq> [] \<and>
    st_Endpoint (nfs_Status networkFS) \<noteq> IP (hd (Addresses (hd (ep_Subsets ep)))) \<longrightarrow>
      changedCondition (clk 0) (st_Endpoint (nfs_Status networkFS))
          (IP (hd (Addresses (hd (ep_Subsets ep)))))
        \<in> set (st_NetworkFSConds (nfs_Status (computeStatus clk ep networkFS))))"
proof (intro conjI impI)
  assume "ep_Subsets ep = [] \<or> Addresses (hd (ep_Subsets ep)) = []"
  then have eq: "computeStatus clk ep networkFS = notReadyStatus clk networkFS"
    by (rule computeStatus_not_live)
  show "filter (\<lambda>x. cond_Type x = ConditionTypeEndpointChanged)
        (st_NetworkFSConds (nfs_Status (computeStatus clk ep networkFS))) =
      filter (\<lambda>x. cond_Type x = ConditionTypeEndpointChanged)
        (st_NetworkFSConds (nfs_Status networkFS))"
    unfolding eq
    by (simp add: notReadyStatus_def Let_def Update_filter_other
          ConditionTypeNotReady_def ConditionTypeEndpointChanged_def)
next
  let ?ip = "IP (hd (Addresses (hd (ep_Subsets ep))))"
  assume a: "ep_Subsets ep \<noteq> [] \<and> Addresses (hd (ep_Subsets ep)) \<noteq> [] \<and>
    st_Endpoint (nfs_Status networkFS) \<noteq> ?ip"
  then have eq: "computeStatus clk ep networkFS = readyStatus clk ?ip networkFS"
    by (simp add: computeStatus_live)
  show "changedCondition (clk 0) (st_Endpoint (nfs_Status networkFS)) ?ip
        \<in> set (st_NetworkFSConds (nfs_Status (computeStatus clk ep networkFS)))"
    unfolding eq using a
    by (simp add: readyStatus_def Let_def Update_keeps_other Update_member
          changedCondition_def ConditionTypeReady_def ConditionTypeEndpointChanged_def)
qed

theorem changed_condition_only_when_live_witness:
  "filter (\<lambda>x. cond_Type x = ConditionTypeEndpointChanged)
     (st_NetworkFSConds (nfs_Status
        (computeStatus (clockFrom 7) (endpointWith ''pvc-abc'' [[]]) earlierStatus))) =
     [changedCondition (clockFrom 3 0) '''' ''10.0.0.2''] \<and>
   changedCondition (clockFrom 7 0) ''10.0.0.2'' ''10.0.0.5''
     \<in> set (st_NetworkFSConds (nfs_Status
         (computeStatus (clockFrom 7) (endpointWith ''pvc-abc'' [[''10.0.0.5'']]) earlierStatus)))"
proof -
  have previous: "st_Endpoint (nfs_Status earlierStatus) = ''10.0.0.2''"
    by (simp add: earlierStatus_def model_defs fixture_defs)
  have before: "filter (\<lambda>x. cond_Type x = ConditionTypeEndpointChanged)
      (st_NetworkFSConds (nfs_Status earlierStatus)) = [changedCondition (clockFrom 3 0) '''' ''10.0.0.2'']"
    by (simp add: earlierStatus_def model_defs fixture_defs consts_defs)
  show ?thesis
    using previous before
      changed_condition_only_when_live [of "endpointWith ''pvc-abc'' [[]]" "clockFrom 7"
        earlierStatus]
      changed_condition_only_when_live [of "endpointWith ''pvc-abc'' [[''10.0.0.5'']]"
        "clockFrom 7" earlierStatus]
    by (simp add: fixture_defs)
qed

section \<open>The message of the EndpointChanged condition\<close>

text \<open>
  Claim C1 expects the message of the EndpointChanged condition to say that the address was
  initialized when no address was stored before. The code builds the text
  "Endpoint address is initialized with ..." and then tests whether that text is the empty
  string, which it never is, instead of testing the stored address; so it always replaces
  the text. For a resource with no stored address and an endpoint whose first address is
  \<open>10.0.0.5\<close>, the one EndpointChanged record of the computed history carries the message
  "Endpoint address is changed, previous address is " followed by nothing, and mentions
  neither an initialization nor the new address.
\<close>

theorem initialized_message_never_built:
  "filter (\<lambda>x. cond_Type x = ConditionTypeEndpointChanged)
     (st_NetworkFSConds (nfs_Status (computeStatus (clockFrom 7)
        (endpointWith ''pvc-abc'' [[''10.0.0.5'']])
        (filesystemWith NetworkFSStateEnabled '''' [])))) =
     [\<lparr>cond_Type = ConditionTypeEndpointChanged, cond_Status = ConditionTrue,
       cond_LastTransitionTime = clockFrom 7 0, cond_Reason = ''Endpoint is changed'',
       cond_Message = ''Endpoint address is changed, previous address is ''\<rparr>]"
  by (simp add: model_defs fixture_defs consts_defs)

section \<open>Running the reconciliation again\<close>

text \<open>
  Claim C2 expects a second run on an unchanged snapshot to find the computed resource
  deep-equal to the fetched one and to skip the write; the comparison of line 130 is there
  for that. Every run, however, stamps the Ready (or NotReady) condition with a fresh
  \<^verbatim>\<open>metav1.Now()\<close>, whatever the history already holds, so the comparison cannot succeed
  once the clock has moved. A first run, with clock reading 7, on a fresh enabled resource
  and an endpoint at \<open>10.0.0.5\<close> computes a status; a second run, with clock reading 60,
  on that status, with the same endpoint and the same headless service, computes a
  different resource (the Ready record carries the new transition time) and submits a
  status update again.
\<close>

theorem second_run_writes_again:
  "calls (OnEndpointChange
            (stubController
               (Inr (computeStatus (clockFrom 7) (endpointWith ''pvc-abc'' [[''10.0.0.5'']])
                       (filesystemWith NetworkFSStateEnabled '''' [])))
               (Inr (serviceWith ClusterIPNone)) False)
            (clockFrom 60) ''default/pvc-abc'' (Some (endpointWith ''pvc-abc'' [[''10.0.0.5'']]))) =
     [GetNetworkFS ''harvester-system'' ''pvc-abc'', GetService LHNameSpace ''pvc-abc'',
      UpdateStatus
        (computeStatus (clockFrom 60) (endpointWith ''pvc-abc'' [[''10.0.0.5'']])
           (computeStatus (clockFrom 7) (endpointWith ''pvc-abc'' [[''10.0.0.5'']])
              (filesystemWith NetworkFSStateEnabled '''' [])))] \<and>
   computeStatus (clockFrom 60) (endpointWith ''pvc-abc'' [[''10.0.0.5'']])
     (computeStatus (clockFrom 7) (endpointWith ''pvc-abc'' [[''10.0.0.5'']])
        (filesystemWith NetworkFSStateEnabled '''' [])) \<noteq>
   computeStatus (clockFrom 7) (endpointWith ''pvc-abc'' [[''10.0.0.5'']])
     (filesystemWith NetworkFSStateEnabled '''' [])"
  by (simp add: OnEndpointChange_def model_defs fixture_defs consts_defs HasPrefix_def)

end
